theory Spec2Isabelle
  imports Main "HOL-Library.Word"
begin

section \<open>JavaScript values used by the library\<close>

text \<open>
  A JavaScript string (well-formed Unicode) is modelled by the bytes of its UTF-8
  encoding, one \<^typ>\<open>char\<close> per byte, so \<open>new TextEncoder().encode(s)\<close> is the string
  itself read as bytes and its \<open>length\<close> is \<^const>\<open>length\<close>. The byte of \<open>.\<close> and of
  \<open>"\<close> occurs in such a string only as that character, so \<open>split(".")\<close> and
  \<open>startsWith('"')\<close> work on the bytes; \<open>toLowerCase\<close> is modelled on the ASCII
  letters \<open>A\<close> to \<open>Z\<close> and leaves every other byte as it is. A number is modelled by
  an integer (a byte count, a number of seconds), for which \<open>toString()\<close> gives the
  decimal digits (up to \<open>2^53\<close> in magnitude, which byte counts stay below). A
  string is falsy exactly when it is empty; \<open>undefined\<close> and \<open>null\<close> are
  \<^const>\<open>None\<close>.
\<close>

type_synonym byte = "8 word"

definition dquote :: char where
  "dquote = CHR 0x22"

definition truthy :: "string \<Rightarrow> bool" where
  "truthy s = (s \<noteq> [])"

definition truthy_opt :: "string option \<Rightarrow> bool" where
  "truthy_opt v = (case v of None \<Rightarrow> False | Some s \<Rightarrow> truthy s)"

definition digit_char :: "nat \<Rightarrow> char" where
  "digit_char d = (if d < 16 then ''0123456789abcdef'' ! d else CHR ''?'')"

fun digits :: "nat \<Rightarrow> nat \<Rightarrow> string" where
  "digits b n = (if b < 2 \<or> n < b then [digit_char n]
                 else digits b (n div b) @ [digit_char (n mod b)])"

declare digits.simps [simp del]

definition Number_toString :: "int \<Rightarrow> string" where
  "Number_toString i = (if i < 0 then CHR ''-'' # digits 10 (nat (- i)) else digits 10 (nat i))"

definition toString16 :: "nat \<Rightarrow> string" where
  "toString16 n = digits 16 n"

definition padStart :: "nat \<Rightarrow> char \<Rightarrow> string \<Rightarrow> string" where
  "padStart n c s = replicate (n - length s) c @ s"

fun join :: "string \<Rightarrow> string list \<Rightarrow> string" where
  "join sep [] = []"
| "join sep [x] = x"
| "join sep (x # y # ys) = x @ sep @ join sep (y # ys)"

fun split :: "char \<Rightarrow> string \<Rightarrow> string list" where
  "split sep [] = [[]]"
| "split sep (c # cs) =
     (if c = sep then [] # split sep cs
      else (case split sep cs of [] \<Rightarrow> [[c]] | w # ws \<Rightarrow> (c # w) # ws))"

definition toLowerCase_char :: "char \<Rightarrow> char" where
  "toLowerCase_char c =
     (case map_of (zip ''ABCDEFGHIJKLMNOPQRSTUVWXYZ'' ''abcdefghijklmnopqrstuvwxyz'') c of
        None \<Rightarrow> c | Some l \<Rightarrow> l)"

definition toLowerCase :: "string \<Rightarrow> string" where
  "toLowerCase s = map toLowerCase_char s"

definition startsWith :: "string \<Rightarrow> char \<Rightarrow> bool" where
  "startsWith s c = (case s of [] \<Rightarrow> False | x # _ \<Rightarrow> x = c)"


section \<open>MIME type table (src/mime-types.ts)\<close>

text \<open>
  The own keys of the \<open>MIME_TYPES\<close> object. A miss gives \<open>undefined\<close>, which
  \<open>||\<close> replaces by the fallback; every value of the table is a non-empty string.
  The parameter type of \<open>getMimeType\<close> is the set of these keys (and
  \<open>HeadersContentTypeInput\<close>, declared in \<open>types.ts\<close>, is a part of it), but
  \<open>filePath\<close> passes any string, so the function is defined on every string. The two
  lowercase names every object inherits, \<open>constructor\<close> and \<open>__proto__\<close> (and, for a
  direct call of \<open>getMimeType\<close>, the other inherited names such as \<open>toString\<close>), for
  which the lookup gives an object and not a string, are outside the model.
\<close>

definition MIME_TYPES :: "(string \<times> string) list" where
  "MIME_TYPES =
    [(''html'', ''text/html; charset=utf-8''),
     (''css'', ''text/css''),
     (''javascript'', ''application/javascript''),
     (''json'', ''application/json''),
     (''xml'', ''application/xml''),
     (''text'', ''text/plain; charset=utf-8''),
     (''csv'', ''text/csv''),
     (''markdown'', ''text/markdown; charset=utf-8''),
     (''png'', ''image/png''),
     (''jpeg'', ''image/jpeg''),
     (''gif'', ''image/gif''),
     (''svg'', ''image/svg+xml''),
     (''webp'', ''image/webp''),
     (''icon'', ''image/x-icon''),
     (''bmp'', ''image/bmp''),
     (''woff'', ''font/woff''),
     (''woff2'', ''font/woff2''),
     (''truetype'', ''font/ttf''),
     (''embedded-opentype'', ''application/vnd.ms-fontobject''),
     (''opentype'', ''font/otf''),
     (''mp4'', ''video/mp4''),
     (''webm'', ''video/webm''),
     (''ogg'', ''video/ogg''),
     (''mpeg'', ''audio/mpeg''),
     (''wav'', ''audio/wav''),
     (''flac'', ''audio/flac''),
     (''pdf'', ''application/pdf''),
     (''doc'', ''application/msword''),
     (''docx'', ''application/vnd.openxmlformats-officedocument.wordprocessingml.document''),
     (''zip'', ''application/zip''),
     (''tar'', ''application/x-tar''),
     (''gzip'', ''application/gzip''),
     (''7z'', ''application/x-7z-compressed''),
     (''js'', ''application/javascript''),
     (''txt'', ''text/plain; charset=utf-8''),
     (''jpg'', ''image/jpeg''),
     (''ico'', ''image/x-icon''),
     (''ttf'', ''font/ttf''),
     (''eot'', ''application/vnd.ms-fontobject''),
     (''otf'', ''font/otf''),
     (''mp3'', ''audio/mpeg''),
     (''gz'', ''application/gzip'')]"

definition getMimeType :: "string \<Rightarrow> string" where
  "getMimeType extension =
     (case map_of MIME_TYPES extension of
        None \<Rightarrow> ''application/octet-stream''
      | Some m \<Rightarrow> m)"

section \<open>Cache strategy table (src/cache-strategies.ts)\<close>

text \<open>
  \<open>HeadersCacheStrategy\<close> is declared in \<open>types.ts\<close>; \<open>CACHE_CONFIGS\<close> is a
  \<open>Record\<close> over it, so its values are the keys of the table.
\<close>

datatype HeadersCacheStrategy =
    NO_CACHE | ONE_YEAR | IMMUTABLE | ONE_MONTH | ONE_WEEK | ONE_DAY | ONE_HOUR
  | FIVE_MINUTES | API | STYLESHEET | JAVASCRIPT | HASHED_ASSET | FONT | IMAGE
  | FAVICON | HTML_PAGE | API_RESPONSE | FEED | SITEMAP | MANIFEST
  | SERVICE_WORKER | MEDIA_STREAM | DOCUMENT | ARCHIVE

record cache_config =
  cacheControl :: string
  expires :: "string option"

text \<open>
  The table is built once, when the module is loaded. \<open>new Date(0).toUTCString()\<close> is
  the epoch; \<open>new Date(Date.now() + 31536000 * 1000).toUTCString()\<close> depends on the
  clock at that moment and is the parameter \<open>year_ahead\<close>, one string per entry that
  computes it.
\<close>

definition epoch_utc :: string where
  "epoch_utc = ''Thu, 01 Jan 1970 00:00:00 GMT''"

fun CACHE_CONFIGS :: "(HeadersCacheStrategy \<Rightarrow> string) \<Rightarrow> HeadersCacheStrategy \<Rightarrow> cache_config" where
  "CACHE_CONFIGS year_ahead NO_CACHE =
     \<lparr>cacheControl = ''no-cache, no-store, must-revalidate'', expires = Some epoch_utc\<rparr>"
| "CACHE_CONFIGS year_ahead ONE_YEAR =
     \<lparr>cacheControl = ''public, max-age=31536000'', expires = Some (year_ahead ONE_YEAR)\<rparr>"
| "CACHE_CONFIGS year_ahead IMMUTABLE =
     \<lparr>cacheControl = ''public, max-age=31536000, immutable'', expires = Some (year_ahead IMMUTABLE)\<rparr>"
| "CACHE_CONFIGS year_ahead ONE_MONTH =
     \<lparr>cacheControl = ''public, max-age=2592000'', expires = None\<rparr>"
| "CACHE_CONFIGS year_ahead ONE_WEEK =
     \<lparr>cacheControl = ''public, max-age=604800'', expires = None\<rparr>"
| "CACHE_CONFIGS year_ahead ONE_DAY =
     \<lparr>cacheControl = ''public, max-age=86400, must-revalidate'', expires = None\<rparr>"
| "CACHE_CONFIGS year_ahead ONE_HOUR =
     \<lparr>cacheControl = ''public, max-age=3600, must-revalidate'', expires = None\<rparr>"
| "CACHE_CONFIGS year_ahead FIVE_MINUTES =
     \<lparr>cacheControl = ''public, max-age=300'', expires = None\<rparr>"
| "CACHE_CONFIGS year_ahead API =
     \<lparr>cacheControl = ''public, max-age=300, s-maxage=3600'', expires = None\<rparr>"
| "CACHE_CONFIGS year_ahead STYLESHEET =
     \<lparr>cacheControl = ''public, max-age=2592000, must-revalidate'', expires = None\<rparr>"
| "CACHE_CONFIGS year_ahead JAVASCRIPT =
     \<lparr>cacheControl = ''public, max-age=2592000, must-revalidate'', expires = None\<rparr>"
| "CACHE_CONFIGS year_ahead HASHED_ASSET =
     \<lparr>cacheControl = ''public, max-age=31536000, immutable'', expires = Some (year_ahead HASHED_ASSET)\<rparr>"
| "CACHE_CONFIGS year_ahead FONT =
     \<lparr>cacheControl = ''public, max-age=31536000'', expires = Some (year_ahead FONT)\<rparr>"
| "CACHE_CONFIGS year_ahead IMAGE =
     \<lparr>cacheControl = ''public, max-age=2592000'', expires = None\<rparr>"
| "CACHE_CONFIGS year_ahead FAVICON =
     \<lparr>cacheControl = ''public, max-age=31536000'', expires = Some (year_ahead FAVICON)\<rparr>"
| "CACHE_CONFIGS year_ahead HTML_PAGE =
     \<lparr>cacheControl = ''public, max-age=3600, must-revalidate'', expires = None\<rparr>"
| "CACHE_CONFIGS year_ahead API_RESPONSE =
     \<lparr>cacheControl = ''public, max-age=300, s-maxage=900'', expires = None\<rparr>"
| "CACHE_CONFIGS year_ahead FEED =
     \<lparr>cacheControl = ''public, max-age=3600'', expires = None\<rparr>"
| "CACHE_CONFIGS year_ahead SITEMAP =
     \<lparr>cacheControl = ''public, max-age=86400'', expires = None\<rparr>"
| "CACHE_CONFIGS year_ahead MANIFEST =
     \<lparr>cacheControl = ''public, max-age=86400, must-revalidate'', expires = None\<rparr>"
| "CACHE_CONFIGS year_ahead SERVICE_WORKER =
     \<lparr>cacheControl = ''no-cache, no-store, must-revalidate'', expires = Some epoch_utc\<rparr>"
| "CACHE_CONFIGS year_ahead MEDIA_STREAM =
     \<lparr>cacheControl = ''no-cache, no-store'', expires = None\<rparr>"
| "CACHE_CONFIGS year_ahead DOCUMENT =
     \<lparr>cacheControl = ''public, max-age=86400'', expires = None\<rparr>"
| "CACHE_CONFIGS year_ahead ARCHIVE =
     \<lparr>cacheControl = ''public, max-age=604800'', expires = None\<rparr>"

definition getCacheConfig :: "(HeadersCacheStrategy \<Rightarrow> string) \<Rightarrow> HeadersCacheStrategy \<Rightarrow> cache_config" where
  "getCacheConfig year_ahead strategy = CACHE_CONFIGS year_ahead strategy"

section \<open>Content hasher (hashContent)\<close>

datatype content =
    StringContent string
  | ArrayBufferContent "byte list"
  | Uint8ArrayContent "byte list"

text \<open>
  What the host offers: \<open>Bun.hash\<close> where the global \<open>Bun\<close> exists, and an MD5 digest
  in hex where everything inside the \<open>try\<close> block (\<open>require("crypto")\<close>, \<open>Buffer\<close>,
  \<open>createHash("md5")\<close>) succeeds; \<^const>\<open>None\<close> for the second means the block throws.
\<close>

record runtime =
  Bun_hash :: "(content \<Rightarrow> nat) option"
  crypto_md5 :: "(byte list \<Rightarrow> string) option"

definition TextEncoder_encode :: "string \<Rightarrow> byte list" where
  "TextEncoder_encode s = map of_char s"

definition toInt32 :: "int \<Rightarrow> int" where
  "toInt32 x = (x + 2 ^ 31) mod 2 ^ 32 - 2 ^ 31"

definition shl :: "int \<Rightarrow> nat \<Rightarrow> int" where
  "shl x n = toInt32 (toInt32 x * 2 ^ n)"

definition hash_step :: "int \<Rightarrow> byte \<Rightarrow> int" where
  "hash_step hash b = (let hash1 = shl hash 5 - hash + uint b in toInt32 hash1)"

fun hash_loop :: "int \<Rightarrow> byte list \<Rightarrow> int" where
  "hash_loop hash [] = hash"
| "hash_loop hash (b # bs) = hash_loop (hash_step hash b) bs"

definition content_bytes :: "content \<Rightarrow> byte list" where
  "content_bytes c =
     (case c of
        StringContent s \<Rightarrow> TextEncoder_encode s
      | ArrayBufferContent bs \<Rightarrow> bs
      | Uint8ArrayContent bs \<Rightarrow> bs)"

definition hashContent_fallback :: "content \<Rightarrow> string" where
  "hashContent_fallback c =
     (let bytes = content_bytes c;
          hash = hash_loop 0 bytes
      in padStart 16 (CHR ''0'') (toString16 (nat \<bar>hash\<bar>)))"

definition hashContent :: "runtime \<Rightarrow> content \<Rightarrow> string" where
  "hashContent rt c =
     (case Bun_hash rt of
        Some bun \<Rightarrow> toString16 (bun c)
      | None \<Rightarrow>
          (case crypto_md5 rt of
             Some md5 \<Rightarrow> md5 (content_bytes c)
           | None \<Rightarrow> hashContent_fallback c))"


section \<open>CORS origin resolver (getCorsOrigin)\<close>

text \<open>
  \<open>req.headers.get("Origin")\<close> is \<open>null\<close> or a string; \<open>process.env.NODE_ENV\<close> is
  \<open>undefined\<close> or a string. The options object is a record of which the function reads
  the field \<open>allowAll\<close> only; any further properties a caller passes are the record's
  extension.
\<close>

record request =
  Origin :: "string option"

record process_env =
  NODE_ENV :: "string option"

record cors_origin_options =
  allowAll :: "bool option"

definition string_of :: "string option \<Rightarrow> string" where
  "string_of v = (case v of None \<Rightarrow> [] | Some s \<Rightarrow> s)"

definition isDev :: "process_env \<Rightarrow> bool" where
  "isDev env = (NODE_ENV env \<noteq> Some ''production'')"

definition resolve_allowAll :: "process_env \<Rightarrow> 'a cors_origin_options_scheme option \<Rightarrow> bool" where
  "resolve_allowAll env options =
     (case options of
        None \<Rightarrow> isDev env
      | Some opts \<Rightarrow> (case allowAll opts of None \<Rightarrow> isDev env | Some a \<Rightarrow> a))"

definition getCorsOrigin ::
  "process_env \<Rightarrow> request \<Rightarrow> string list \<Rightarrow> 'a cors_origin_options_scheme option \<Rightarrow> string" where
  "getCorsOrigin env req allowedOrigins options =
     (let requestOrigin = Origin req;
          allowAll1 = resolve_allowAll env options
      in if allowAll1 \<and> truthy_opt requestOrigin then string_of requestOrigin
         else if length allowedOrigins = 0 then
           (if truthy_opt requestOrigin then string_of requestOrigin else ''*'')
         else if \<not> truthy_opt requestOrigin then allowedOrigins ! 0
         else if string_of requestOrigin \<in> set allowedOrigins then string_of requestOrigin
         else allowedOrigins ! 0)"

section \<open>Headers builder (class HeadersBuilder)\<close>

text \<open>
  The private field \<open>headers\<close> is a plain object with string values: a map from header
  names to values. Each chained method is a function from the mapping before the call to
  the mapping after it (the method returns \<open>this\<close>). A plain object stores an assignment
  to any key as an own property, except the key \<open>__proto__\<close>, whose inherited setter
  ignores a string.
\<close>

type_synonym hdrs = "string \<rightharpoonup> string"

datatype error = Error string

definition js_set :: "hdrs \<Rightarrow> string \<Rightarrow> string \<Rightarrow> hdrs" where
  "js_set h k v = (if k = ''__proto__'' then h else h(k \<mapsto> v))"

definition contentType :: "string \<Rightarrow> hdrs \<Rightarrow> hdrs" where
  "contentType type h = h(''Content-Type'' \<mapsto> getMimeType type)"

definition filePath :: "string \<Rightarrow> hdrs \<Rightarrow> hdrs" where
  "filePath path h =
     (let popped = toLowerCase (last (split (CHR ''.'') path));
          ext = (if truthy popped then popped else [])
      in h(''Content-Type'' \<mapsto> getMimeType ext))"

definition mimeType :: "string \<Rightarrow> hdrs \<Rightarrow> hdrs" where
  "mimeType m h = h(''Content-Type'' \<mapsto> m)"

definition cache :: "(HeadersCacheStrategy \<Rightarrow> string) \<Rightarrow> HeadersCacheStrategy \<Rightarrow> hdrs \<Rightarrow> hdrs" where
  "cache year_ahead strategy h =
     (let cfg = getCacheConfig year_ahead strategy;
          h1 = h(''Cache-Control'' \<mapsto> cacheControl cfg)
      in if truthy_opt (expires cfg) then h1(''Expires'' \<mapsto> string_of (expires cfg)) else h1)"

definition content_truthy :: "content option \<Rightarrow> bool" where
  "content_truthy c =
     (case c of
        None \<Rightarrow> False
      | Some (StringContent s) \<Rightarrow> truthy s
      | Some (ArrayBufferContent bs) \<Rightarrow> True
      | Some (Uint8ArrayContent bs) \<Rightarrow> True)"

definition quoted :: "string \<Rightarrow> string" where
  "quoted s = [dquote] @ s @ [dquote]"

definition eTag :: "runtime \<Rightarrow> content option \<Rightarrow> hdrs \<Rightarrow> hdrs" where
  "eTag rt contentOrETag h =
     (if \<not> content_truthy contentOrETag then h
      else (case contentOrETag of
              None \<Rightarrow> h
            | Some c \<Rightarrow>
                (let etag = (case c of
                               StringContent s \<Rightarrow>
                                 if startsWith s dquote then s else quoted (hashContent rt c)
                             | ArrayBufferContent bs \<Rightarrow> quoted (hashContent rt c)
                             | Uint8ArrayContent bs \<Rightarrow> quoted (hashContent rt c))
                 in h(''ETag'' \<mapsto> etag))))"

text \<open>\<open>lastModified\<close> takes the \<open>Date\<close> by the string its \<open>toUTCString()\<close> gives.\<close>

definition lastModified :: "string \<Rightarrow> hdrs \<Rightarrow> hdrs" where
  "lastModified date_utc h = h(''Last-Modified'' \<mapsto> date_utc)"

definition contentLength :: "int \<Rightarrow> hdrs \<Rightarrow> hdrs" where
  "contentLength bytes h = h(''Content-Length'' \<mapsto> Number_toString bytes)"

definition redirect :: "string \<Rightarrow> bool option \<Rightarrow> hdrs \<Rightarrow> hdrs" where
  "redirect url permanent h =
     (let permanent1 = (case permanent of None \<Rightarrow> False | Some p \<Rightarrow> p);
          h1 = h(''Location'' \<mapsto> url)
      in h1(''X-Redirect-Type'' \<mapsto> (if permanent1 then ''permanent'' else ''temporary'')))"

record cors_options =
  origin :: "string option"
  methods :: "string list option"
  headers :: "string list option"
  maxAge :: "int option"
  credentials :: "bool option"

definition cors_origin :: "cors_options \<Rightarrow> string" where
  "cors_origin opts = (case origin opts of None \<Rightarrow> ''*'' | Some v \<Rightarrow> v)"

definition cors_methods :: "cors_options \<Rightarrow> string list" where
  "cors_methods opts =
     (case methods opts of
        None \<Rightarrow> [''GET'', ''POST'', ''PUT'', ''DELETE'', ''OPTIONS'']
      | Some v \<Rightarrow> v)"

definition cors_headers :: "cors_options \<Rightarrow> string list" where
  "cors_headers opts =
     (case headers opts of None \<Rightarrow> [''Content-Type'', ''Authorization''] | Some v \<Rightarrow> v)"

definition cors_maxAge :: "cors_options \<Rightarrow> int" where
  "cors_maxAge opts = (case maxAge opts of None \<Rightarrow> 86400 | Some v \<Rightarrow> v)"

definition allowCredentials :: "cors_options \<Rightarrow> bool" where
  "allowCredentials opts =
     (case credentials opts of None \<Rightarrow> cors_origin opts \<noteq> ''*'' | Some c \<Rightarrow> c)"

definition cors_error :: error where
  "cors_error = Error (''CORS: Cannot use credentials with wildcard origin '' @ quoted ''*'' @
     ''. Specify an exact origin or set credentials to false.'')"

text \<open>
  \<open>cors\<close> can throw: the result is the error or the normal return, paired with the
  mapping as it is when the call ends.
\<close>

definition cors :: "cors_options \<Rightarrow> hdrs \<Rightarrow> (error + unit) \<times> hdrs" where
  "cors opts h =
     (if allowCredentials opts \<and> cors_origin opts = ''*'' then (Inl cors_error, h)
      else
        (let h1 = h(''Access-Control-Allow-Origin'' \<mapsto> cors_origin opts);
             h2 = h1(''Access-Control-Allow-Methods'' \<mapsto> join '', '' (cors_methods opts));
             h3 = h2(''Access-Control-Allow-Headers'' \<mapsto> join '', '' (cors_headers opts));
             h4 = (if allowCredentials opts
                   then h3(''Access-Control-Allow-Credentials'' \<mapsto> ''true'') else h3);
             h5 = h4(''Access-Control-Max-Age'' \<mapsto> Number_toString (cors_maxAge opts))
         in (Inr (), h5)))"

definition cors_default :: cors_options where
  "cors_default =
     \<lparr>origin = None, methods = None, headers = None, maxAge = None, credentials = None\<rparr>"

text \<open>
  A property of the options object of \<open>security\<close> is absent, present with the value
  \<open>undefined\<close>, or present with a value. In \<open>{ ...defaults, ...options }\<close> an absent
  property leaves the default in place and a present one replaces it, also by
  \<open>undefined\<close>; \<open>merged\<close> is the property of the resulting object (\<^const>\<open>None\<close> where
  it is \<open>undefined\<close>).
\<close>

datatype 'a property = Absent | Undefined | Given 'a

definition merged :: "'a option \<Rightarrow> 'a property \<Rightarrow> 'a option" where
  "merged dflt p = (case p of Absent \<Rightarrow> dflt | Undefined \<Rightarrow> None | Given v \<Rightarrow> Some v)"

datatype hsts_value = HstsBool bool | HstsNumber int

record security_options =
  csp :: "string property"
  hsts :: "hsts_value property"
  noSniff :: "bool property"
  frameOptions :: "string property"
  xssProtection :: "bool property"

definition security :: "security_options option \<Rightarrow> hdrs \<Rightarrow> hdrs" where
  "security options h =
     (let opts_csp = (case options of None \<Rightarrow> None | Some opt \<Rightarrow> merged None (csp opt));
          opts_hsts = (case options of None \<Rightarrow> Some (HstsBool True)
                       | Some opt \<Rightarrow> merged (Some (HstsBool True)) (hsts opt));
          opts_noSniff = (case options of None \<Rightarrow> Some True
                          | Some opt \<Rightarrow> merged (Some True) (noSniff opt));
          opts_frameOptions = (case options of None \<Rightarrow> Some ''SAMEORIGIN''
                               | Some opt \<Rightarrow> merged (Some ''SAMEORIGIN'') (frameOptions opt));
          opts_xssProtection = (case options of None \<Rightarrow> Some True
                                | Some opt \<Rightarrow> merged (Some True) (xssProtection opt));
          h1 = (if truthy_opt opts_csp
                then h(''Content-Security-Policy'' \<mapsto> string_of opts_csp) else h);
          h2 = (case opts_hsts of
                  None \<Rightarrow> h1
                | Some (HstsBool b) \<Rightarrow>
                    if b then h1(''Strict-Transport-Security'' \<mapsto>
                                  ''max-age='' @ Number_toString 31536000 @ ''; includeSubDomains'')
                    else h1
                | Some (HstsNumber n) \<Rightarrow>
                    if n \<noteq> 0 then h1(''Strict-Transport-Security'' \<mapsto>
                                  ''max-age='' @ Number_toString n @ ''; includeSubDomains'')
                    else h1);
          h3 = (if opts_noSniff = Some True
                then h2(''X-Content-Type-Options'' \<mapsto> ''nosniff'') else h2);
          h4 = (if truthy_opt opts_frameOptions
                then h3(''X-Frame-Options'' \<mapsto> string_of opts_frameOptions) else h3);
          h5 = (if opts_xssProtection = Some True
                then h4(''X-XSS-Protection'' \<mapsto> ''1; mode=block'') else h4)
      in h5)"

definition custom :: "string \<Rightarrow> string \<Rightarrow> hdrs \<Rightarrow> hdrs" where
  "custom name v h = js_set h name v"

text \<open>\<open>Object.assign\<close> assigns the own properties of its source one after the other.\<close>

fun customHeaders :: "(string \<times> string) list \<Rightarrow> hdrs \<Rightarrow> hdrs" where
  "customHeaders [] h = h"
| "customHeaders ((k, v) # kvs) h = customHeaders kvs (js_set h k v)"

definition vary :: "string list \<Rightarrow> hdrs \<Rightarrow> hdrs" where
  "vary field_names h =
     (let existing = h ''Vary'';
          newFields = (if truthy_opt existing
                       then string_of existing @ '', '' @ join '', '' field_names
                       else join '', '' field_names)
      in h(''Vary'' \<mapsto> newFields))"

datatype encoding = gzip | br | deflate

fun encoding_string :: "encoding \<Rightarrow> string" where
  "encoding_string gzip = ''gzip''"
| "encoding_string br = ''br''"
| "encoding_string deflate = ''deflate''"

definition compress :: "encoding option \<Rightarrow> hdrs \<Rightarrow> hdrs" where
  "compress enc h =
     (case enc of None \<Rightarrow> h | Some e \<Rightarrow> h(''Content-Encoding'' \<mapsto> encoding_string e))"

definition byteLength :: "content \<Rightarrow> nat" where
  "byteLength c =
     (case c of
        StringContent s \<Rightarrow> length (TextEncoder_encode s)
      | ArrayBufferContent bs \<Rightarrow> length bs
      | Uint8ArrayContent bs \<Rightarrow> length bs)"

text \<open>\<open>build\<close> maps the builder's mapping to the mapping it returns.\<close>

definition build :: "content option \<Rightarrow> hdrs \<Rightarrow> hdrs" where
  "build c h =
     (let result = h
      in if content_truthy c \<and> \<not> truthy_opt (result ''Content-Length'') then
           (case c of
              None \<Rightarrow> result
            | Some cnt \<Rightarrow> result(''Content-Length'' \<mapsto> Number_toString (int (byteLength cnt))))
         else result)"


text \<open>
  One call on the builder, for statements about every operation. \<open>apply_op\<close> gives the
  builder's mapping after the call; \<open>build\<close> only reads it.
\<close>

datatype builder_op =
    ContentType string
  | FilePath string
  | MimeType string
  | Cache HeadersCacheStrategy
  | ETag "content option"
  | LastModified string
  | ContentLength int
  | Redirect string "bool option"
  | Cors cors_options
  | Security "security_options option"
  | Custom string string
  | CustomHeaders "(string \<times> string) list"
  | Vary "string list"
  | Compress "encoding option"
  | Build "content option"

fun apply_op :: "runtime \<Rightarrow> (HeadersCacheStrategy \<Rightarrow> string) \<Rightarrow> builder_op \<Rightarrow> hdrs \<Rightarrow> hdrs" where
  "apply_op rt ya (ContentType t) h = contentType t h"
| "apply_op rt ya (FilePath p) h = filePath p h"
| "apply_op rt ya (MimeType m) h = mimeType m h"
| "apply_op rt ya (Cache s) h = cache ya s h"
| "apply_op rt ya (ETag c) h = eTag rt c h"
| "apply_op rt ya (LastModified d) h = lastModified d h"
| "apply_op rt ya (ContentLength n) h = contentLength n h"
| "apply_op rt ya (Redirect u p) h = redirect u p h"
| "apply_op rt ya (Cors opts) h = snd (cors opts h)"
| "apply_op rt ya (Security opts) h = security opts h"
| "apply_op rt ya (Custom k v) h = custom k v h"
| "apply_op rt ya (CustomHeaders kvs) h = customHeaders kvs h"
| "apply_op rt ya (Vary fs) h = vary fs h"
| "apply_op rt ya (Compress e) h = compress e h"
| "apply_op rt ya (Build c) h = h"

section \<open>The builder and its mapping as objects\<close>

text \<open>
  Objects live in a heap, a list indexed by address; a new object takes the next
  address. The builder holds the address of its \<open>headers\<close> object. \<open>build\<close> creates
  the object \<open>{ ...this.headers }\<close>, writes \<open>Content-Length\<close> into that new object
  and returns its address. Whatever the caller does to the returned object afterwards
  is a write to the heap at that address.
\<close>

type_synonym addr = nat
type_synonym heap = "hdrs list"

record HeadersBuilder =
  this_headers :: addr

definition alloc :: "heap \<Rightarrow> hdrs \<Rightarrow> addr \<times> heap" where
  "alloc hp obj = (length hp, hp @ [obj])"

definition new_HeadersBuilder :: "heap \<Rightarrow> HeadersBuilder \<times> heap" where
  "new_HeadersBuilder hp = (let (a, hp1) = alloc hp Map.empty in (\<lparr>this_headers = a\<rparr>, hp1))"

definition build_obj :: "HeadersBuilder \<Rightarrow> content option \<Rightarrow> heap \<Rightarrow> addr \<times> heap" where
  "build_obj this c hp =
     (let (result, hp1) = alloc hp (hp ! this_headers this)
      in if content_truthy c \<and> \<not> truthy_opt ((hp1 ! result) ''Content-Length'') then
           (case c of
              None \<Rightarrow> (result, hp1)
            | Some cnt \<Rightarrow>
                (result,
                 hp1[result := (hp1 ! result)(''Content-Length'' \<mapsto>
                                   Number_toString (int (byteLength cnt)))]))
         else (result, hp1))"

definition heap_write :: "heap \<Rightarrow> addr \<Rightarrow> hdrs \<Rightarrow> heap" where
  "heap_write hp a obj = hp[a := obj]"

section \<open>The hash of the specification's third tier\<close>

text \<open>
  The rolling hash as the specification words it: \<open>hash = hash * 31 + byte\<close> with the
  accumulator masked to 32 bits, and its digest, the hash in hexadecimal padded with
  zeros to the width the code uses.
\<close>

definition rolling31 :: "byte list \<Rightarrow> nat" where
  "rolling31 bytes = foldl (\<lambda>h b. (h * 31 + unat b) mod 2 ^ 32) 0 bytes"

definition spec_fallback_digest :: "content \<Rightarrow> string" where
  "spec_fallback_digest c = padStart 16 (CHR ''0'') (toString16 (rolling31 (content_bytes c)))"

section \<open>Options the README documents for the resolver\<close>



section \<open>Arithmetic of the fallback hash\<close>

lemma toInt32_cong: "x mod 2 ^ 32 = y mod 2 ^ 32 \<Longrightarrow> toInt32 x = toInt32 y"
proof -
  assume a: "x mod 2 ^ 32 = y mod 2 ^ 32"
  have "(x + 2 ^ 31) mod 2 ^ 32 = (y + 2 ^ 31) mod 2 ^ 32"
    using a by (rule mod_add_cong) simp
  then show ?thesis by (simp add: toInt32_def)
qed

lemma toInt32_mod: "toInt32 x mod 2 ^ 32 = x mod 2 ^ 32"
proof -
  have "((x + 2 ^ 31) mod 2 ^ 32 - 2 ^ 31) mod 2 ^ 32 = ((x + 2 ^ 31) - 2 ^ 31) mod (2 ^ 32 :: int)"
    by (rule mod_diff_cong) simp_all
  then show ?thesis by (simp add: toInt32_def)
qed

lemma hash_step_eq: "hash_step h b = toInt32 (h * 31 + uint b)"
proof -
  have "toInt32 (toInt32 h * 2 ^ 5) mod 2 ^ 32 = (toInt32 h * 2 ^ 5) mod 2 ^ 32"
    by (rule toInt32_mod)
  also have "\<dots> = (h * 2 ^ 5) mod 2 ^ 32"
    by (rule mod_mult_cong) (rule toInt32_mod, rule refl)
  finally have s: "shl h 5 mod 2 ^ 32 = (h * 32) mod 2 ^ 32"
    by (simp add: shl_def)
  have "(shl h 5 - h + uint b) mod 2 ^ 32 = (h * 32 - h + uint b) mod 2 ^ 32"
    by (intro mod_add_cong mod_diff_cong s refl)
  then have "toInt32 (shl h 5 - h + uint b) = toInt32 (h * 32 - h + uint b)"
    by (rule toInt32_cong)
  then show ?thesis by (simp add: hash_step_def Let_def algebra_simps)
qed

lemma hash_loop_rolling:
  "hash_loop (toInt32 (int n)) bytes
     = toInt32 (int (foldl (\<lambda>h b. (h * 31 + unat b) mod 2 ^ 32) n bytes))"
proof (induction bytes arbitrary: n)
  case Nil
  then show ?case by simp
next
  case (Cons b bytes)
  have "(toInt32 (int n) * 31 + uint b) mod 2 ^ 32 = (int n * 31 + uint b) mod 2 ^ 32"
    by (intro mod_add_cong mod_mult_cong toInt32_mod refl)
  also have "\<dots> = int ((n * 31 + unat b) mod 2 ^ 32) mod 2 ^ 32"
    by (simp add: zmod_int)
  finally have "hash_step (toInt32 (int n)) b = toInt32 (int ((n * 31 + unat b) mod 2 ^ 32))"
    unfolding hash_step_eq by (rule toInt32_cong)
  then show ?case using Cons.IH[of "(n * 31 + unat b) mod 2 ^ 32"] by simp
qed

lemma hash_loop_0: "hash_loop 0 bytes = toInt32 (int (rolling31 bytes))"
  using hash_loop_rolling[of 0 bytes] by (simp add: rolling31_def toInt32_def)

lemma length_digits: "2 \<le> b \<Longrightarrow> n < b ^ k \<Longrightarrow> 0 < k \<Longrightarrow> length (digits b n) \<le> k"
proof (induction b n arbitrary: k rule: digits.induct)
  case (1 b n)
  show ?case
  proof (cases "n < b")
    case True
    then show ?thesis using 1(4) by (simp add: digits.simps)
  next
    case False
    obtain j where k: "k = Suc j" using 1(4) by (cases k) auto
    have j0: "0 < j" using False 1(3) k by (cases j) auto
    have "n div b < b ^ j" using 1(3) k 1(2)
      by (simp add: less_mult_imp_div_less mult.commute)
    then have "length (digits b (n div b)) \<le> j"
      using 1(1)[of j] False 1(2) j0 by simp
    then show ?thesis using False 1(2) k by (simp add: digits.simps[of b n])
  qed
qed

lemma digit_char_hex:
  assumes "d < 16"
  shows "digit_char d \<in> set ''0123456789abcdef''"
proof -
  have "d < length ''0123456789abcdef''" using assms by simp
  then have "''0123456789abcdef'' ! d \<in> set ''0123456789abcdef''" by (rule nth_mem)
  then show ?thesis using assms by (simp only: digit_char_def if_True)
qed

lemma set_digits16: "set (digits 16 n) \<subseteq> set ''0123456789abcdef''"
proof (induction "16::nat" n rule: digits.induct)
  case (1 n)
  show ?case
  proof (cases "n < 16")
    case True
    then show ?thesis using digit_char_hex[of n] by (simp add: digits.simps[of 16 n])
  next
    case False
    have "digit_char (n mod 16) \<in> set ''0123456789abcdef''" by (rule digit_char_hex) simp
    then show ?thesis using False 1 by (simp add: digits.simps[of 16 n])
  qed
qed


lemma abs_toInt32:
  assumes "r < 2 ^ 32"
  shows "nat \<bar>toInt32 (int r)\<bar> = (if r < 2 ^ 31 then r else 2 ^ 32 - r)"
proof (cases "r < 2 ^ 31")
  case True
  have "(int r + 2147483648) mod 4294967296 = int r + 2147483648"
    using True by (intro mod_pos_pos_trivial) simp_all
  then have "toInt32 (int r) = int r" by (simp add: toInt32_def)
  then show ?thesis using True by simp
next
  case False
  have "(int r - 2147483648 + 4294967296) mod 4294967296 = (int r - 2147483648) mod 4294967296"
    by (rule mod_add_self2)
  also have "\<dots> = int r - 2147483648"
    using False assms by (intro mod_pos_pos_trivial) simp_all
  finally have "(int r + 2147483648) mod 4294967296 = int r - 2147483648"
    by (simp add: algebra_simps)
  then have "toInt32 (int r) = int r - 4294967296" by (simp add: toInt32_def)
  then show ?thesis using False assms by simp
qed

lemma rolling31_bound: "rolling31 bytes < 2 ^ 32"
proof (induction bytes rule: rev_induct)
  case Nil
  then show ?case by (simp add: rolling31_def)
next
  case (snoc b bytes)
  then show ?case by (simp add: rolling31_def)
qed

lemma length_padStart: "length s \<le> n \<Longrightarrow> length (padStart n c s) = n"
  by (simp add: padStart_def)

lemma set_padStart: "set (padStart n c s) \<subseteq> insert c (set s)"
  by (auto simp: padStart_def)

lemma pad8:
  "padStart 16 (CHR ''0'') [a1, a2, a3, a4, a5, a6, a7, a8]
     = ''00000000'' @ [a1, a2, a3, a4, a5, a6, a7, a8]"
  by (simp add: padStart_def numeral_eq_Suc)

lemma pad1: "padStart 16 (CHR ''0'') [a1] = ''000000000000000'' @ [a1]"
  by (simp add: padStart_def numeral_eq_Suc)

lemma pad7:
  "padStart 16 (CHR ''0'') [a1, a2, a3, a4, a5, a6, a7]
     = ''000000000'' @ [a1, a2, a3, a4, a5, a6, a7]"
  by (simp add: padStart_def numeral_eq_Suc)

section \<open>Keys and objects\<close>

lemma dom_js_set: "dom h \<subseteq> dom (js_set h k v)"
  by (auto simp: js_set_def)

lemma dom_customHeaders: "dom h \<subseteq> dom (customHeaders kvs h)"
proof (induction kvs arbitrary: h)
  case Nil
  then show ?case by simp
next
  case (Cons kv kvs)
  obtain k v where kv: "kv = (k, v)" by (cases kv)
  have "dom h \<subseteq> dom (js_set h k v)" by (rule dom_js_set)
  also have "\<dots> \<subseteq> dom (customHeaders kvs (js_set h k v))" by (rule Cons.IH)
  finally show ?case by (simp add: kv)
qed

lemma dom_cors: "dom h \<subseteq> dom (snd (cors opts h))"
  by (auto simp: cors_def Let_def)

lemma dom_security: "dom h \<subseteq> dom (security opts h)"
  unfolding security_def Let_def
  by (auto split: option.splits hsts_value.splits)

lemma dom_eTag: "dom h \<subseteq> dom (eTag rt c h)"
  by (auto simp: eTag_def Let_def split: option.splits content.splits)

lemma dom_cache: "dom h \<subseteq> dom (cache ya s h)"
  by (auto simp: cache_def Let_def)

lemma dom_apply_op: "dom h \<subseteq> dom (apply_op rt ya op h)"
proof (cases op)
  case (Cors opts) then show ?thesis using dom_cors[of h opts] by simp
next
  case (Security opts) then show ?thesis using dom_security[of h opts] by simp
next
  case (ETag c) then show ?thesis using dom_eTag[of h rt c] by simp
next
  case (Cache s) then show ?thesis using dom_cache[of h ya s] by simp
next
  case (CustomHeaders kvs) then show ?thesis using dom_customHeaders[of h kvs] by simp
next
  case (Custom k v) then show ?thesis using dom_js_set[of h k v] by (simp add: custom_def)
qed (auto simp: contentType_def filePath_def mimeType_def lastModified_def contentLength_def
      redirect_def vary_def compress_def Let_def split: option.splits)

lemma alloc_simps: "fst (alloc hp obj) = length hp" "snd (alloc hp obj) = hp @ [obj]"
  by (simp_all add: alloc_def)

lemma build_obj_eq:
  "build_obj this c hp = (length hp, hp @ [build c (hp ! this_headers this)])"
  by (cases c) (simp_all add: build_obj_def build_def alloc_def Let_def)

section \<open>Properties of \<open>cors\<close>\<close>

lemma cors_ok_iff:
  "fst (cors opts h) = Inr () \<longleftrightarrow> \<not> (allowCredentials opts \<and> cors_origin opts = ''*'')"
  by (simp add: cors_def Let_def)

lemma cors_acac:
  "fst (cors opts h) = Inr () \<Longrightarrow>
   snd (cors opts h) ''Access-Control-Allow-Credentials'' =
     (if allowCredentials opts then Some ''true'' else h ''Access-Control-Allow-Credentials'')"
  by (auto simp: cors_def Let_def)

text \<open>
  C1. Whenever the resolved credentials value is true and the origin is \<open>"*"\<close>, the call
  to \<open>cors\<close> throws its error, and the builder's mapping when the call ends is the mapping
  it had before the call.
\<close>

theorem cors_wildcard_credentials_rejected:
  assumes "allowCredentials opts" and "cors_origin opts = ''*''"
  shows "cors opts h = (Inl cors_error, h)"
  using assms by (simp add: cors_def)

theorem cors_wildcard_credentials_rejected_witness:
  "allowCredentials (cors_default\<lparr>origin := Some ''*'', credentials := Some True\<rparr>)
   \<and> cors_origin (cors_default\<lparr>origin := Some ''*'', credentials := Some True\<rparr>) = ''*''
   \<and> cors (cors_default\<lparr>origin := Some ''*'', credentials := Some True\<rparr>)
        (Map.empty(''Vary'' \<mapsto> ''Accept''))
      = (Inl cors_error, Map.empty(''Vary'' \<mapsto> ''Accept''))"
  using cors_wildcard_credentials_rejected
          [of "cors_default\<lparr>origin := Some ''*'', credentials := Some True\<rparr>"
              "Map.empty(''Vary'' \<mapsto> ''Accept'')"]
  by (simp add: allowCredentials_def cors_origin_def cors_default_def)

text \<open>
  What one call to \<open>cors\<close> does to the credentials key. In every call that returns,
  the credentials value in force is the one the caller supplied, and otherwise it is true
  exactly when the origin is not \<open>"*"\<close>; \<open>Access-Control-Allow-Credentials\<close> is set to
  \<open>"true"\<close> when it is true and is not written when it is false. So \<open>cors()\<close>
  without arguments returns, sets \<open>Access-Control-Allow-Origin\<close> to \<open>"*"\<close> and leaves
  the key as it finds it: none on a new builder. \<open>cors({ origin: o })\<close> with \<open>o\<close> other
  than \<open>"*"\<close> returns and sets the key to \<open>"true"\<close>.
\<close>

lemma cors_credentials_resolution:
  "(fst (cors opts h) = Inr () \<longrightarrow>
      snd (cors opts h) ''Access-Control-Allow-Credentials'' =
        (if (case credentials opts of Some c \<Rightarrow> c | None \<Rightarrow> cors_origin opts \<noteq> ''*'')
         then Some ''true'' else h ''Access-Control-Allow-Credentials''))
   \<and> fst (cors cors_default h) = Inr ()
   \<and> snd (cors cors_default h) ''Access-Control-Allow-Origin'' = Some ''*''
   \<and> snd (cors cors_default h) ''Access-Control-Allow-Credentials''
       = h ''Access-Control-Allow-Credentials''
   \<and> snd (cors cors_default Map.empty) ''Access-Control-Allow-Credentials'' = None
   \<and> (ori \<noteq> ''*'' \<longrightarrow>
        fst (cors (cors_default\<lparr>origin := Some ori\<rparr>) h) = Inr ()
        \<and> snd (cors (cors_default\<lparr>origin := Some ori\<rparr>) h) ''Access-Control-Allow-Origin''
            = Some ori
        \<and> snd (cors (cors_default\<lparr>origin := Some ori\<rparr>) h) ''Access-Control-Allow-Credentials''
            = Some ''true'')"
proof -
  have a: "fst (cors opts h) = Inr () \<longrightarrow>
      snd (cors opts h) ''Access-Control-Allow-Credentials'' =
        (if (case credentials opts of Some c \<Rightarrow> c | None \<Rightarrow> cors_origin opts \<noteq> ''*'')
         then Some ''true'' else h ''Access-Control-Allow-Credentials'')"
    using cors_acac[of opts h] by (simp add: allowCredentials_def split: option.splits)
  have d: "\<not> allowCredentials cors_default" "cors_origin cors_default = ''*''"
    by (simp_all add: allowCredentials_def cors_origin_def cors_default_def)
  have b: "fst (cors cors_default h) = Inr ()"
    using d by (simp add: cors_ok_iff)
  have c: "snd (cors cors_default h) ''Access-Control-Allow-Origin'' = Some ''*''"
    using d by (simp add: cors_def Let_def)
  have e: "snd (cors cors_default h') ''Access-Control-Allow-Credentials''
           = h' ''Access-Control-Allow-Credentials''" for h'
    using d cors_acac[of cors_default h'] by (simp add: cors_ok_iff)
  have f: "ori \<noteq> ''*'' \<longrightarrow>
        fst (cors (cors_default\<lparr>origin := Some ori\<rparr>) h) = Inr ()
        \<and> snd (cors (cors_default\<lparr>origin := Some ori\<rparr>) h) ''Access-Control-Allow-Origin''
            = Some ori
        \<and> snd (cors (cors_default\<lparr>origin := Some ori\<rparr>) h) ''Access-Control-Allow-Credentials''
            = Some ''true''"
  proof
    assume o: "ori \<noteq> ''*''"
    have g: "allowCredentials (cors_default\<lparr>origin := Some ori\<rparr>)"
            "cors_origin (cors_default\<lparr>origin := Some ori\<rparr>) = ori"
      using o by (simp_all add: allowCredentials_def cors_origin_def cors_default_def)
    show "fst (cors (cors_default\<lparr>origin := Some ori\<rparr>) h) = Inr ()
        \<and> snd (cors (cors_default\<lparr>origin := Some ori\<rparr>) h) ''Access-Control-Allow-Origin''
            = Some ori
        \<and> snd (cors (cors_default\<lparr>origin := Some ori\<rparr>) h) ''Access-Control-Allow-Credentials''
            = Some ''true''"
      using g o by (simp add: cors_def Let_def)
  qed
  from a b c e[of h] e[of Map.empty] f show ?thesis by simp
qed

text \<open>
  C2, at the input where code and claim part. By the claim, \<open>cors()\<close> without
  arguments leaves no \<open>Access-Control-Allow-Credentials\<close> key in the mapping. On a new
  builder, \<open>cors({ origin: "https://x.test" })\<close> followed by \<open>cors()\<close>: both calls
  return, and the mapping then has \<open>Access-Control-Allow-Origin\<close> \<open>"*"\<close> next to
  \<open>Access-Control-Allow-Credentials\<close> \<open>"true"\<close>, the key the first call wrote and the
  second did not remove.
\<close>

theorem cors_stale_credentials_key:
  "fst (cors (cors_default\<lparr>origin := Some ''https://x.test''\<rparr>) Map.empty) = Inr ()
   \<and> fst (cors cors_default
          (snd (cors (cors_default\<lparr>origin := Some ''https://x.test''\<rparr>) Map.empty))) = Inr ()
   \<and> snd (cors cors_default
          (snd (cors (cors_default\<lparr>origin := Some ''https://x.test''\<rparr>) Map.empty)))
        ''Access-Control-Allow-Origin'' = Some ''*''
   \<and> snd (cors cors_default
          (snd (cors (cors_default\<lparr>origin := Some ''https://x.test''\<rparr>) Map.empty)))
        ''Access-Control-Allow-Credentials'' = Some ''true''"
proof -
  have d: "\<not> allowCredentials cors_default" "cors_origin cors_default = ''*''"
    by (simp_all add: allowCredentials_def cors_origin_def cors_default_def)
  have g: "allowCredentials (cors_default\<lparr>origin := Some ''https://x.test''\<rparr>)"
          "cors_origin (cors_default\<lparr>origin := Some ''https://x.test''\<rparr>) = ''https://x.test''"
    by (simp_all add: allowCredentials_def cors_origin_def cors_default_def)
  have a: "fst (cors (cors_default\<lparr>origin := Some ''https://x.test''\<rparr>) Map.empty) = Inr ()"
    using g by (simp add: cors_ok_iff)
  have b: "snd (cors (cors_default\<lparr>origin := Some ''https://x.test''\<rparr>) Map.empty)
             ''Access-Control-Allow-Credentials'' = Some ''true''"
    using g by (simp add: cors_def Let_def)
  have c: "fst (cors cors_default h) = Inr ()" for h
    using d by (simp add: cors_ok_iff)
  have e: "snd (cors cors_default h) ''Access-Control-Allow-Origin'' = Some ''*''" for h
    using d by (simp add: cors_def Let_def)
  have f: "snd (cors cors_default h) ''Access-Control-Allow-Credentials''
             = h ''Access-Control-Allow-Credentials''" for h
    using d cors_acac[of cors_default h] by (simp add: cors_ok_iff)
  show ?thesis using a b c e f by simp
qed

section \<open>Properties of \<open>getCorsOrigin\<close>\<close>

text \<open>
  C3. The resolver follows the five steps in order. Allow-all is in effect when the
  option \<open>allowAll\<close> says so and, where the option is missing, when \<open>NODE_ENV\<close> is not
  \<open>"production"\<close>; a request origin is present when the \<open>Origin\<close> header has a non-empty
  value. (1) With allow-all in effect and a request origin present, the result is the
  request origin. Otherwise: (2) with an empty list the result is the request origin if
  present and \<open>"*"\<close> if not; (3) with a non-empty list and no request origin it is the
  first allowed origin; (4) with a request origin that is an entry of the list it is that
  origin; (5) with a request origin that is no entry of the list it is the first allowed
  origin.
\<close>

theorem getCorsOrigin_decision_order:
  "(resolve_allowAll env options \<and> truthy_opt (Origin req) \<longrightarrow>
      Origin req = Some (getCorsOrigin env req allowedOrigins options))
   \<and> (\<not> (resolve_allowAll env options \<and> truthy_opt (Origin req)) \<and> allowedOrigins = [] \<longrightarrow>
        (truthy_opt (Origin req) \<longrightarrow>
           Origin req = Some (getCorsOrigin env req allowedOrigins options))
        \<and> (\<not> truthy_opt (Origin req) \<longrightarrow> getCorsOrigin env req allowedOrigins options = ''*''))
   \<and> (\<not> (resolve_allowAll env options \<and> truthy_opt (Origin req)) \<and> allowedOrigins \<noteq> []
        \<and> \<not> truthy_opt (Origin req) \<longrightarrow>
        getCorsOrigin env req allowedOrigins options = hd allowedOrigins)
   \<and> (\<not> (resolve_allowAll env options \<and> truthy_opt (Origin req)) \<and> allowedOrigins \<noteq> []
        \<and> truthy_opt (Origin req) \<and> string_of (Origin req) \<in> set allowedOrigins \<longrightarrow>
        Origin req = Some (getCorsOrigin env req allowedOrigins options))
   \<and> (\<not> (resolve_allowAll env options \<and> truthy_opt (Origin req)) \<and> allowedOrigins \<noteq> []
        \<and> truthy_opt (Origin req) \<and> string_of (Origin req) \<notin> set allowedOrigins \<longrightarrow>
        getCorsOrigin env req allowedOrigins options = hd allowedOrigins)"
  by (cases "Origin req"; cases allowedOrigins)
     (auto simp: getCorsOrigin_def Let_def truthy_opt_def truthy_def string_of_def)


theorem getCorsOrigin_decision_order_witness:
  "resolve_allowAll \<lparr>NODE_ENV = None\<rparr> (None :: cors_origin_options option)
   \<and> truthy_opt (Origin \<lparr>Origin = Some ''https://evil.test''\<rparr>)
   \<and> getCorsOrigin \<lparr>NODE_ENV = None\<rparr> \<lparr>Origin = Some ''https://evil.test''\<rparr>
        [''https://a.test''] (None :: cors_origin_options option) = ''https://evil.test''
   \<and> \<not> resolve_allowAll \<lparr>NODE_ENV = Some ''production''\<rparr> (None :: cors_origin_options option)
   \<and> getCorsOrigin \<lparr>NODE_ENV = Some ''production''\<rparr> \<lparr>Origin = Some ''https://evil.test''\<rparr>
        [] (None :: cors_origin_options option) = ''https://evil.test''
   \<and> getCorsOrigin \<lparr>NODE_ENV = Some ''production''\<rparr> \<lparr>Origin = None\<rparr>
        [] (None :: cors_origin_options option) = ''*''
   \<and> getCorsOrigin \<lparr>NODE_ENV = Some ''production''\<rparr> \<lparr>Origin = None\<rparr>
        [''https://a.test'', ''https://b.test''] (None :: cors_origin_options option)
       = ''https://a.test''
   \<and> getCorsOrigin \<lparr>NODE_ENV = Some ''production''\<rparr> \<lparr>Origin = Some ''https://b.test''\<rparr>
        [''https://a.test'', ''https://b.test''] (None :: cors_origin_options option)
       = ''https://b.test''
   \<and> getCorsOrigin \<lparr>NODE_ENV = Some ''production''\<rparr> \<lparr>Origin = Some ''https://evil.test''\<rparr>
        [''https://a.test''] (None :: cors_origin_options option) = ''https://a.test''"
  using
    getCorsOrigin_decision_order
      [of "\<lparr>NODE_ENV = None\<rparr>" "None :: cors_origin_options option"
          "\<lparr>Origin = Some ''https://evil.test''\<rparr>" "[''https://a.test'']"]
    getCorsOrigin_decision_order
      [of "\<lparr>NODE_ENV = Some ''production''\<rparr>" "None :: cors_origin_options option"
          "\<lparr>Origin = Some ''https://evil.test''\<rparr>" "[]"]
    getCorsOrigin_decision_order
      [of "\<lparr>NODE_ENV = Some ''production''\<rparr>" "None :: cors_origin_options option"
          "\<lparr>Origin = None\<rparr>" "[]"]
    getCorsOrigin_decision_order
      [of "\<lparr>NODE_ENV = Some ''production''\<rparr>" "None :: cors_origin_options option"
          "\<lparr>Origin = None\<rparr>" "[''https://a.test'', ''https://b.test'']"]
    getCorsOrigin_decision_order
      [of "\<lparr>NODE_ENV = Some ''production''\<rparr>" "None :: cors_origin_options option"
          "\<lparr>Origin = Some ''https://b.test''\<rparr>" "[''https://a.test'', ''https://b.test'']"]
    getCorsOrigin_decision_order
      [of "\<lparr>NODE_ENV = Some ''production''\<rparr>" "None :: cors_origin_options option"
          "\<lparr>Origin = Some ''https://evil.test''\<rparr>" "[''https://a.test'']"]
  by (simp add: resolve_allowAll_def isDev_def truthy_opt_def truthy_def string_of_def)




section \<open>Properties of \<open>hashContent\<close>\<close>

text \<open>
  C5, as the code has it. The claim that the fallback tier emits the masked 32-bit
  rolling hash in hexadecimal fails: for the string \<open>aaaaaa\<close> the rolling hash is
  \<open>ab0a8c60\<close>, which as a signed 32-bit integer is negative, and the code emits
  \<open>54f573a0\<close>, the hexadecimal digits of its absolute value.
\<close>

theorem hashContent_fallback_counterexample:
  "hashContent_fallback (StringContent ''aaaaaa'') = ''0000000054f573a0''
   \<and> spec_fallback_digest (StringContent ''aaaaaa'') = ''00000000ab0a8c60''"
proof -
  have a: "hash_loop 0 (content_bytes (StringContent ''aaaaaa'')) = - 1425372064"
    by (simp add: content_bytes_def TextEncoder_encode_def hash_step_def shl_def toInt32_def)
  have r: "rolling31 (content_bytes (StringContent ''aaaaaa'')) = 2869595232"
    by (simp add: content_bytes_def TextEncoder_encode_def rolling31_def)
  have d1: "toString16 1425372064 = ''54f573a0''"
    by (simp add: toString16_def digits.simps digit_char_def)
  have d2: "toString16 2869595232 = ''ab0a8c60''"
    by (simp add: toString16_def digits.simps digit_char_def)
  have "hashContent_fallback (StringContent ''aaaaaa'') = ''0000000054f573a0''"
    unfolding hashContent_fallback_def Let_def a by (simp add: d1 pad8)
  moreover have "spec_fallback_digest (StringContent ''aaaaaa'') = ''00000000ab0a8c60''"
    unfolding spec_fallback_digest_def r by (simp add: d2 pad8)
  ultimately show ?thesis by simp
qed

text \<open>
  C5, amended. For every input the accumulator of the fallback tier is the rolling hash
  \<open>hash = hash * 31 + byte\<close> over the bytes of the input, masked to 32 bits and read as
  a signed 32-bit integer. The tier emits the absolute value of that integer (the hash
  \<open>r\<close> itself below \<open>2^31\<close>, and \<open>2^32 - r\<close> from there on) as exactly 16 lowercase
  hexadecimal digits, padded with zeros on the left. It is the tier \<open>hashContent\<close> takes
  where the host has neither \<open>Bun.hash\<close> nor a working \<open>crypto\<close>.
\<close>

theorem hashContent_fallback_digest:
  "hash_loop 0 (content_bytes c) = toInt32 (int (rolling31 (content_bytes c)))
   \<and> hashContent_fallback c =
       padStart 16 (CHR ''0'')
         (toString16 (if rolling31 (content_bytes c) < 2 ^ 31 then rolling31 (content_bytes c)
                      else 2 ^ 32 - rolling31 (content_bytes c)))
   \<and> length (hashContent_fallback c) = 16
   \<and> set (hashContent_fallback c) \<subseteq> set ''0123456789abcdef''
   \<and> hashContent \<lparr>Bun_hash = None, crypto_md5 = None\<rparr> c = hashContent_fallback c"
proof -
  let ?r = "rolling31 (content_bytes c)"
  let ?m = "if ?r < 2 ^ 31 then ?r else 2 ^ 32 - ?r"
  have r: "?r < 2 ^ 32" by (rule rolling31_bound)
  have a: "hash_loop 0 (content_bytes c) = toInt32 (int ?r)" by (rule hash_loop_0)
  have b: "hashContent_fallback c = padStart 16 (CHR ''0'') (toString16 ?m)"
    using abs_toInt32[OF r] by (simp add: hashContent_fallback_def Let_def a)
  have "?m < 16 ^ 8" using r by (simp split: if_splits)
  then have "length (digits 16 ?m) \<le> 8" by (intro length_digits) simp_all
  then have l: "length (hashContent_fallback c) = 16"
    unfolding b toString16_def by (intro length_padStart) simp
  have "set (hashContent_fallback c) \<subseteq> insert (CHR ''0'') (set (digits 16 ?m))"
    unfolding b toString16_def by (rule set_padStart)
  also have "\<dots> \<subseteq> set ''0123456789abcdef''"
    using set_digits16[of ?m] by auto
  finally have s: "set (hashContent_fallback c) \<subseteq> set ''0123456789abcdef''" .
  have h: "hashContent \<lparr>Bun_hash = None, crypto_md5 = None\<rparr> c = hashContent_fallback c"
    by (simp add: hashContent_def)
  from a b l s h show ?thesis by blast
qed


section \<open>Properties of the builder's operations\<close>

text \<open>
  C6, as the code has it. The claim that empty binary content leaves the mapping
  unchanged fails: an empty \<open>Uint8Array\<close> is an object, so it passes the test
  \<open>!contentOrETag\<close> and is hashed. On a host without \<open>Bun.hash\<close> and \<open>crypto\<close>,
  \<open>eTag(new Uint8Array(0))\<close> on an empty mapping sets \<open>ETag\<close> to the quoted digest of
  no bytes.
\<close>

theorem eTag_empty_binary_counterexample:
  "eTag \<lparr>Bun_hash = None, crypto_md5 = None\<rparr> (Some (Uint8ArrayContent [])) Map.empty ''ETag''
     = Some (quoted ''0000000000000000'')
   \<and> eTag \<lparr>Bun_hash = None, crypto_md5 = None\<rparr> (Some (Uint8ArrayContent [])) Map.empty
       \<noteq> Map.empty"
proof -
  have d: "toString16 0 = ''0''"
    by (simp add: toString16_def digits.simps digit_char_def)
  have h: "hashContent_fallback (Uint8ArrayContent []) = ''0000000000000000''"
    by (simp add: hashContent_fallback_def content_bytes_def d pad1)
  have e: "eTag \<lparr>Bun_hash = None, crypto_md5 = None\<rparr> (Some (Uint8ArrayContent [])) Map.empty
             ''ETag'' = Some (quoted ''0000000000000000'')"
    by (simp add: eTag_def content_truthy_def hashContent_def h)
  have "eTag \<lparr>Bun_hash = None, crypto_md5 = None\<rparr> (Some (Uint8ArrayContent [])) Map.empty
          \<noteq> Map.empty"
  proof
    assume "eTag \<lparr>Bun_hash = None, crypto_md5 = None\<rparr> (Some (Uint8ArrayContent [])) Map.empty
              = Map.empty"
    then have "eTag \<lparr>Bun_hash = None, crypto_md5 = None\<rparr> (Some (Uint8ArrayContent []))
                 Map.empty ''ETag'' = None"
      by simp
    with e show False by simp
  qed
  with e show ?thesis by simp
qed

text \<open>
  C6, amended. \<open>eTag\<close> leaves the mapping unchanged when its argument is absent or is
  the empty string. A string that begins with a double quote becomes the value of
  \<open>ETag\<close> as it is. Every other string, and every binary content, the empty one too,
  sets \<open>ETag\<close> to the digest of the content hasher between double quotes.
\<close>

theorem eTag_cases:
  "eTag rt None h = h
   \<and> eTag rt (Some (StringContent [])) h = h
   \<and> (startsWith s dquote \<longrightarrow> eTag rt (Some (StringContent s)) h = h(''ETag'' \<mapsto> s))
   \<and> (s \<noteq> [] \<and> \<not> startsWith s dquote \<longrightarrow>
        eTag rt (Some (StringContent s)) h
          = h(''ETag'' \<mapsto> quoted (hashContent rt (StringContent s))))
   \<and> eTag rt (Some (ArrayBufferContent bs)) h
        = h(''ETag'' \<mapsto> quoted (hashContent rt (ArrayBufferContent bs)))
   \<and> eTag rt (Some (Uint8ArrayContent bs)) h
        = h(''ETag'' \<mapsto> quoted (hashContent rt (Uint8ArrayContent bs)))"
  by (cases s) (simp_all add: eTag_def content_truthy_def truthy_def startsWith_def)

theorem eTag_cases_witness:
  "startsWith (quoted ''already-quoted'') dquote
   \<and> eTag \<lparr>Bun_hash = None, crypto_md5 = None\<rparr>
         (Some (StringContent (quoted ''already-quoted''))) Map.empty ''ETag''
       = Some (quoted ''already-quoted'')
   \<and> ''hello'' \<noteq> [] \<and> \<not> startsWith ''hello'' dquote
   \<and> eTag \<lparr>Bun_hash = None, crypto_md5 = None\<rparr> (Some (StringContent ''hello'')) Map.empty ''ETag''
       = Some (quoted ''0000000005e918d2'')"
proof -
  have a: "hash_loop 0 (content_bytes (StringContent ''hello'')) = 99162322"
    by (simp add: content_bytes_def TextEncoder_encode_def hash_step_def shl_def toInt32_def)
  have d: "toString16 99162322 = ''5e918d2''"
    by (simp add: toString16_def digits.simps digit_char_def)
  have h: "hashContent \<lparr>Bun_hash = None, crypto_md5 = None\<rparr> (StringContent ''hello'')
             = ''0000000005e918d2''"
    unfolding hashContent_def hashContent_fallback_def Let_def a by (simp add: d pad7)
  show ?thesis
    using eTag_cases[of "\<lparr>Bun_hash = None, crypto_md5 = None\<rparr>" Map.empty
                        "quoted ''already-quoted''" "[]"]
          eTag_cases[of "\<lparr>Bun_hash = None, crypto_md5 = None\<rparr>" Map.empty "''hello''" "[]"]
    by (simp add: h startsWith_def quoted_def dquote_def)
qed

text \<open>
  C7, at the input where code and claim part. The path \<open>css\<close> has no dot, so by the
  claim its content type is the fallback \<open>application/octet-stream\<close>, as it is for
  \<open>noext\<close>. The code takes the last element of \<open>path.split(".")\<close>, which for a path
  without a dot is the whole path, and sets \<open>Content-Type\<close> to \<open>text/css\<close>. For
  \<open>style.css\<close> and \<open>archive.tar.gz\<close> the code does what the claim says.
\<close>

theorem filePath_dotless_path:
  "CHR ''.'' \<notin> set ''css''
   \<and> filePath ''css'' h ''Content-Type'' = Some ''text/css''
   \<and> filePath ''noext'' h ''Content-Type'' = Some ''application/octet-stream''
   \<and> filePath ''style.css'' h ''Content-Type'' = Some ''text/css''
   \<and> filePath ''archive.tar.gz'' h ''Content-Type'' = Some ''application/gzip''"
  by (simp add: filePath_def toLowerCase_def toLowerCase_char_def truthy_def getMimeType_def
        MIME_TYPES_def)

text \<open>
  C8, as the code has it. The claim that every content argument gets its byte length
  injected fails for the empty string: it is falsy, so \<open>build("")\<close> on a new builder
  returns a mapping without \<open>Content-Length\<close>, where the byte length of the content
  is \<open>0\<close>.
\<close>

theorem build_empty_string_counterexample:
  "build (Some (StringContent [])) Map.empty ''Content-Length'' = None
   \<and> Number_toString (int (byteLength (StringContent []))) = ''0''"
  by (simp add: build_def content_truthy_def truthy_def byteLength_def TextEncoder_encode_def
        Number_toString_def digits.simps digit_char_def)

text \<open>
  C8, amended. For content that is a non-empty string or any binary content, \<open>build\<close>
  adds \<open>Content-Length\<close>, the decimal byte length of the content (the length of the
  UTF-8 encoding of a string, the number of bytes of binary content), when the mapping
  has no \<open>Content-Length\<close> or an empty one. A non-empty \<open>Content-Length\<close> already in
  the mapping is kept. Without content, and for the empty string, the result is the
  mapping as it is.
\<close>

theorem build_content_length:
  "(cnt \<noteq> StringContent [] \<and> (h ''Content-Length'' = None \<or> h ''Content-Length'' = Some []) \<longrightarrow>
      build (Some cnt) h = h(''Content-Length'' \<mapsto> Number_toString (int (byteLength cnt))))
   \<and> (h ''Content-Length'' = Some v \<and> v \<noteq> [] \<longrightarrow> build c h = h)
   \<and> build None h = h
   \<and> build (Some (StringContent [])) h = h
   \<and> byteLength (StringContent s) = length s
   \<and> byteLength (ArrayBufferContent bs) = length bs
   \<and> byteLength (Uint8ArrayContent bs) = length bs"
  by (cases cnt)
     (auto simp: build_def content_truthy_def truthy_opt_def truthy_def byteLength_def
        TextEncoder_encode_def split: option.splits)

theorem build_content_length_witness:
  "StringContent ''hello'' \<noteq> StringContent [] \<and> Map.empty ''Content-Length'' = (None :: string option)
   \<and> build (Some (StringContent ''hello'')) Map.empty ''Content-Length'' = Some ''5''
   \<and> contentLength 99 Map.empty ''Content-Length'' = Some ''99'' \<and> ''99'' \<noteq> []
   \<and> build (Some (StringContent ''hello'')) (contentLength 99 Map.empty) ''Content-Length''
       = Some ''99''"
proof -
  have n: "Number_toString 99 = ''99''" "Number_toString 5 = ''5''"
    by (simp_all add: Number_toString_def digits.simps digit_char_def)
  have c: "contentLength 99 Map.empty ''Content-Length'' = Some ''99''"
    by (simp add: contentLength_def n)
  show ?thesis
    using build_content_length[of "StringContent ''hello''" Map.empty "''99''" "Some (StringContent ''hello'')" "''hello''" "[]"]
          build_content_length[of "StringContent ''hello''" "contentLength 99 Map.empty" "''99''" "Some (StringContent ''hello'')" "''hello''" "[]"]
    by (simp add: c n)
qed


text \<open>
  C9. \<open>build\<close> returns a new object, never the builder's own: its address is none of
  the heap before the call, so it differs from the address the builder holds; it
  contains a copy of the builder's mapping (with \<open>Content-Length\<close> added where \<open>build\<close>
  adds it); the objects of the heap before the call, the builder's mapping among them,
  are unchanged by the call. Whatever is written to the returned object afterwards, the
  builder's mapping stays as it was, and a later \<open>build\<close> returns what it would have
  returned without the write.
\<close>

theorem build_returns_fresh_copy:
  assumes "this_headers this < length hp"
  shows "fst (build_obj this c hp) = length hp
    \<and> fst (build_obj this c hp) \<noteq> this_headers this
    \<and> snd (build_obj this c hp) ! fst (build_obj this c hp) = build c (hp ! this_headers this)
    \<and> take (length hp) (snd (build_obj this c hp)) = hp
    \<and> snd (build_obj this c hp) ! this_headers this = hp ! this_headers this
    \<and> heap_write (snd (build_obj this c hp)) (fst (build_obj this c hp)) obj ! this_headers this
        = hp ! this_headers this
    \<and> snd (build_obj this c2 (heap_write (snd (build_obj this c hp)) (fst (build_obj this c hp)) obj))
          ! fst (build_obj this c2 (heap_write (snd (build_obj this c hp)) (fst (build_obj this c hp)) obj))
        = build c2 (hp ! this_headers this)"
  using assms by (simp add: build_obj_eq heap_write_def nth_append)

theorem build_returns_fresh_copy_witness:
  "this_headers \<lparr>this_headers = 0\<rparr> < length [Map.empty(''Content-Type'' \<mapsto> ''text/css'')]
   \<and> fst (build_obj \<lparr>this_headers = 0\<rparr> None [Map.empty(''Content-Type'' \<mapsto> ''text/css'')])
       \<noteq> 0
   \<and> snd (build_obj \<lparr>this_headers = 0\<rparr> None [Map.empty(''Content-Type'' \<mapsto> ''text/css'')])
        ! fst (build_obj \<lparr>this_headers = 0\<rparr> None [Map.empty(''Content-Type'' \<mapsto> ''text/css'')])
       = Map.empty(''Content-Type'' \<mapsto> ''text/css'')
   \<and> heap_write
         (snd (build_obj \<lparr>this_headers = 0\<rparr> None [Map.empty(''Content-Type'' \<mapsto> ''text/css'')]))
         (fst (build_obj \<lparr>this_headers = 0\<rparr> None [Map.empty(''Content-Type'' \<mapsto> ''text/css'')]))
         Map.empty ! 0
       = Map.empty(''Content-Type'' \<mapsto> ''text/css'')"
proof -
  let ?b = "\<lparr>this_headers = 0\<rparr>"
  let ?hp = "[Map.empty(''Content-Type'' \<mapsto> ''text/css'')]"
  have l: "this_headers ?b < length ?hp" by simp
  have t: "this_headers ?b = 0" by simp
  have v: "?hp ! 0 = Map.empty(''Content-Type'' \<mapsto> ''text/css'')" by simp
  have b: "build None (Map.empty(''Content-Type'' \<mapsto> ''text/css''))
             = Map.empty(''Content-Type'' \<mapsto> ''text/css'')"
    by (simp add: build_def content_truthy_def)
  from build_returns_fresh_copy [OF l, of None Map.empty None] l
  show ?thesis unfolding t v b by blast
qed

text \<open>
  C10. No operation of the builder removes a key: the keys of the mapping after a call
  include the keys before it, also when \<open>cors\<close> throws. In particular, \<open>cache\<close> with a
  strategy whose entry has no \<open>expires\<close>, called after \<open>cache\<close> with a strategy whose
  entry has one, leaves the earlier \<open>Expires\<close> in the mapping, next to the
  \<open>Cache-Control\<close> of the later strategy.
\<close>

theorem operations_keep_keys:
  "dom h \<subseteq> dom (apply_op rt ya op h)
   \<and> (expires (getCacheConfig ya s2) = None \<and> truthy_opt (expires (getCacheConfig ya s1)) \<longrightarrow>
        cache ya s2 (cache ya s1 h) ''Expires'' = expires (getCacheConfig ya s1)
        \<and> cache ya s2 (cache ya s1 h) ''Cache-Control'' = Some (cacheControl (getCacheConfig ya s2)))"
  using dom_apply_op[of h rt ya op]
  by (cases "expires (getCacheConfig ya s1)")
     (auto simp: cache_def Let_def truthy_opt_def string_of_def)

theorem operations_keep_keys_witness:
  "expires (getCacheConfig (\<lambda>s. ''Sat, 01 Jan 2028 00:00:00 GMT'') ONE_MONTH) = None
   \<and> truthy_opt (expires (getCacheConfig (\<lambda>s. ''Sat, 01 Jan 2028 00:00:00 GMT'') NO_CACHE))
   \<and> cache (\<lambda>s. ''Sat, 01 Jan 2028 00:00:00 GMT'') ONE_MONTH
         (cache (\<lambda>s. ''Sat, 01 Jan 2028 00:00:00 GMT'') NO_CACHE Map.empty) ''Expires''
       = Some ''Thu, 01 Jan 1970 00:00:00 GMT''
   \<and> cache (\<lambda>s. ''Sat, 01 Jan 2028 00:00:00 GMT'') ONE_MONTH
         (cache (\<lambda>s. ''Sat, 01 Jan 2028 00:00:00 GMT'') NO_CACHE Map.empty) ''Cache-Control''
       = Some ''public, max-age=2592000''"
  using operations_keep_keys
          [of Map.empty "\<lparr>Bun_hash = None, crypto_md5 = None\<rparr>"
              "\<lambda>s. ''Sat, 01 Jan 2028 00:00:00 GMT''" "Build None" ONE_MONTH NO_CACHE]
  by (simp add: getCacheConfig_def truthy_opt_def truthy_def epoch_utc_def)

end
